theory Spec2Isabelle
  imports Main "HOL-Library.Word"
begin

unbundle bit_operations_syntax

section \<open>Values shared by the whole program\<close>

text \<open>
  A Go \<open>error\<close> value is identified with its message (\<open>err.Error()\<close>); a run-time panic is
  a result of its own. \<open>Unsupported\<close> is not a Go error: it marks a regular expression
  outside the fragment of package \<open>regexp\<close> that this development interprets.
\<close>

datatype error = Error string | Panic string | Unsupported

fun errString :: "error \<Rightarrow> string" where
  "errString (Error s) = s"
| "errString (Panic s) = s"
| "errString Unsupported = ''unsupported''"

text \<open>\<open>strings.Join(elems, sep)\<close>.\<close>

fun Join :: "string list \<Rightarrow> string \<Rightarrow> string" where
  "Join [] sep = []"
| "Join [x] sep = x"
| "Join (x # y # ys) sep = x @ sep @ Join (y # ys) sep"

text \<open>
  \<open>strings.Split(s, sep)\<close> for a separator of one byte, the only use in the program
  (\<open>"\n"\<close>): the empty string splits into one empty field.
\<close>

fun Split :: "string \<Rightarrow> char \<Rightarrow> string list" where
  "Split [] sep = [[]]"
| "Split (c # cs) sep =
     (if c = sep then [] # Split cs sep
      else (case Split cs sep of [] \<Rightarrow> [[c]] | x # xs \<Rightarrow> (c # x) # xs))"

section \<open>Package regexp: compiled patterns and MatchString\<close>

text \<open>
  A compiled pattern is its syntax tree, with the operators of \<open>regexp/syntax\<close> that the
  fragment has. \<open>reach r s ps\<close> is the list of positions of \<open>s\<close> at which a match of \<open>r\<close>
  that starts at a position of \<open>ps\<close> can end; under a star the closure is reached after at
  most \<open>length s + 1\<close> rounds, there being no more positions than that.
  \<open>MatchString r s\<close> holds when \<open>s\<close> contains a match of \<open>r\<close>, starting anywhere.
  Text is taken as 7-bit characters, one byte each.
\<close>

datatype regexp =
    EmptyMatch
  | Literal char
  | AnyCharNotNL
  | BeginText
  | EndText
  | Star regexp
  | Concat regexp regexp

primrec reach :: "regexp \<Rightarrow> string \<Rightarrow> nat list \<Rightarrow> nat list" where
  "reach EmptyMatch s ps = ps"
| "reach (Literal c) s ps = map Suc (filter (\<lambda>i. i < length s \<and> s ! i = c) ps)"
| "reach AnyCharNotNL s ps = map Suc (filter (\<lambda>i. i < length s \<and> s ! i \<noteq> CHR 0x0A) ps)"
| "reach BeginText s ps = filter (\<lambda>i. i = 0) ps"
| "reach EndText s ps = filter (\<lambda>i. i = length s) ps"
| "reach (Star r) s ps = ((\<lambda>qs. remdups (qs @ reach r s qs)) ^^ Suc (length s)) ps"
| "reach (Concat a b) s ps = reach b s (reach a s ps)"

definition MatchString :: "regexp \<Rightarrow> string \<Rightarrow> bool" where
  "MatchString r s = (reach r s [0 ..< Suc (length s)] \<noteq> [])"

text \<open>
  \<open>regexp.Compile\<close> on the fragment: \<open>^\<close>, \<open>$\<close>, \<open>.\<close>, a postfix \<open>*\<close>, and every other
  7-bit character that is not a metacharacter standing for itself. The parser keeps, as
  Go's does, a stack of the pieces read so far (newest first) and whether the piece on
  top is a repetition: a star with nothing before it and a star on a star are the syntax
  errors of Go. Anything else is reported as \<open>Unsupported\<close>, and nothing is said about it.
\<close>

definition metachars :: "char list" where
  "metachars = [CHR 0x5C, CHR ''+'', CHR ''?'', CHR ''('', CHR '')'', CHR ''|'',
                CHR ''['', CHR '']'', CHR ''{'', CHR ''}'']"

fun parse :: "string \<Rightarrow> regexp list \<Rightarrow> bool \<Rightarrow> error + regexp list" where
  "parse [] stack lastRepeat = Inr stack"
| "parse (c # cs) stack lastRepeat =
     (if c = CHR ''*'' then
        (if lastRepeat then Inl (Error ''error parsing regexp: invalid nested repetition operator: `**`'')
         else (case stack of
                 [] \<Rightarrow> Inl (Error ''error parsing regexp: missing argument to repetition operator: `*`'')
               | r # rs \<Rightarrow> parse cs (Star r # rs) True))
      else if c = CHR ''^'' then parse cs (BeginText # stack) False
      else if c = CHR ''$'' then parse cs (EndText # stack) False
      else if c = CHR ''.'' then parse cs (AnyCharNotNL # stack) False
      else if c \<in> set metachars \<or> 128 \<le> (of_char c :: nat) then Inl Unsupported
      else parse cs (Literal c # stack) False)"

text \<open>The pieces of the stack, oldest first, in one concatenation.\<close>

fun concat_stack :: "regexp list \<Rightarrow> regexp" where
  "concat_stack [] = EmptyMatch"
| "concat_stack [r] = r"
| "concat_stack (r # rs) = Concat (concat_stack rs) r"

definition Compile :: "string \<Rightarrow> error + regexp" where
  "Compile expr = (case parse expr [] False of Inl e \<Rightarrow> Inl e | Inr stack \<Rightarrow> Inr (concat_stack stack))"

section \<open>The file system, the clock and the toolchain process\<close>

text \<open>
  What the program sees of the operating system. A name is a regular file (content,
  modification time, mode) or a directory; \<open>clock\<close> is the wall clock in
  nanoseconds, read by \<open>time.Since\<close> and stamped on what is written; \<open>calls\<close> lists the
  command lines handed to \<open>exec.Command\<close>, oldest first. \<open>os.FileMode\<close> is a \<open>uint32\<close>.
  The mode of a node is the one handed to the system call that created it; the umask of
  the process, which can only clear bits of it, is not modelled.
\<close>

datatype node =
    File (data: string) (modTime: int) (mode: "32 word")
  | Dir (modTime: int) (mode: "32 word")

record world =
  nodes :: "string \<rightharpoonup> node"
  clock :: int
  calls :: "string list list"

text \<open>\<open>os.Stat\<close> and \<open>os.Open\<close>: the node under the name, or an error when there is none.\<close>

definition os_Stat :: "string \<Rightarrow> world \<Rightarrow> error + node" where
  "os_Stat name w =
     (case nodes w name of
        None \<Rightarrow> Inl (Error (''stat '' @ name @ '': no such file or directory''))
      | Some n \<Rightarrow> Inr n)"

definition os_Open :: "string \<Rightarrow> world \<Rightarrow> error + node" where
  "os_Open name w =
     (case nodes w name of
        None \<Rightarrow> Inl (Error (''open '' @ name @ '': no such file or directory''))
      | Some n \<Rightarrow> Inr n)"

text \<open>
  Paths are taken in clean form (no doubled or trailing slash, no dot element), which is
  what \<open>filepath.Join\<close> returns and what an escaped module path is; on such operands
  \<open>filepath.Join\<close> puts one slash between two non-empty elements and \<open>path.Dir\<close> drops the
  last element.
\<close>

definition filepath_Join :: "string \<Rightarrow> string \<Rightarrow> string" where
  "filepath_Join a b = (if a = [] then b else if b = [] then a else a @ ''/'' @ b)"

fun path_Dir_aux :: "string \<Rightarrow> string" where
  "path_Dir_aux [] = []"
| "path_Dir_aux (c # cs) = (if c = CHR ''/'' then cs else path_Dir_aux cs)"

definition path_Dir :: "string \<Rightarrow> string" where
  "path_Dir p =
     (if CHR ''/'' \<notin> set p then ''.''
      else (let d = rev (path_Dir_aux (rev p)) in if d = [] then ''/'' else d))"

text \<open>
  The directories above a path and the path itself, outermost first: the prefixes that
  stop before a slash (the root for a leading slash), then the whole path.
\<close>

fun ancestors_aux :: "string \<Rightarrow> string \<Rightarrow> string list" where
  "ancestors_aux acc [] = (if acc = [] then [] else [rev acc])"
| "ancestors_aux acc (c # cs) =
     (if c = CHR ''/'' then [if acc = [] then ''/'' else rev acc] else [])
     @ ancestors_aux (c # acc) cs"

definition ancestors :: "string \<Rightarrow> string list" where
  "ancestors p = remdups (ancestors_aux [] p)"

text \<open>
  \<open>syscallMode\<close> of package \<open>os\<close>, through which \<open>os.Mkdir\<close> and \<open>os.OpenFile\<close> pass
  their \<open>perm\<close>: the low nine bits (\<open>ModePerm\<close>, octal 777) are kept, and the bits
  \<open>ModeSetuid\<close> (bit 23), \<open>ModeSetgid\<close> (bit 22) and \<open>ModeSticky\<close> (bit 20) of a
  \<open>FileMode\<close> become \<open>S_ISUID\<close> (octal 4000), \<open>S_ISGID\<close> (octal 2000) and \<open>S_ISVTX\<close>
  (octal 1000). Every other bit is dropped.
\<close>

definition syscallMode :: "32 word \<Rightarrow> 32 word" where
  "syscallMode i =
     (i AND 511) OR (if bit i 23 then 2048 else 0) OR (if bit i 22 then 1024 else 0)
       OR (if bit i 20 then 512 else 0)"

text \<open>
  \<open>os.MkdirAll(path, perm)\<close>: a name that is a directory is passed over, a missing one is
  created by \<open>os.Mkdir\<close> with the mode \<open>syscallMode perm\<close>, and a regular file in the way
  is the error.
\<close>

fun mkdirs :: "string list \<Rightarrow> 32 word \<Rightarrow> world \<Rightarrow> error option \<times> world" where
  "mkdirs [] perm w = (None, w)"
| "mkdirs (d # ds) perm w =
     (case nodes w d of
        Some (File _ _ _) \<Rightarrow> (Some (Error (''mkdir '' @ d @ '': not a directory'')), w)
      | Some (Dir _ _) \<Rightarrow> mkdirs ds perm w
      | None \<Rightarrow> mkdirs ds perm (w\<lparr>nodes := (nodes w)(d \<mapsto> Dir (clock w) (syscallMode perm))\<rparr>))"

definition os_MkdirAll :: "string \<Rightarrow> 32 word \<Rightarrow> world \<Rightarrow> error option \<times> world" where
  "os_MkdirAll path perm w = mkdirs (ancestors path) perm w"

text \<open>
  \<open>ioutil.WriteFile(name, data, perm)\<close>: an existing file is truncated and rewritten, its
  mode kept; a new file needs its directory to exist and is created by \<open>os.OpenFile\<close>
  with the mode \<open>syscallMode perm\<close>; in both cases the modification time is the clock's. \<open>ioutil.ReadFile\<close> gives the content of
  a regular file.
\<close>

definition ioutil_WriteFile :: "string \<Rightarrow> string \<Rightarrow> 32 word \<Rightarrow> world \<Rightarrow> error option \<times> world" where
  "ioutil_WriteFile name bytes perm w =
     (case nodes w name of
        Some (Dir _ _) \<Rightarrow> (Some (Error (''open '' @ name @ '': is a directory'')), w)
      | Some (File _ _ m) \<Rightarrow> (None, w\<lparr>nodes := (nodes w)(name \<mapsto> File bytes (clock w) m)\<rparr>)
      | None \<Rightarrow>
          (case nodes w (path_Dir name) of
             Some (Dir _ _) \<Rightarrow>
               (None, w\<lparr>nodes := (nodes w)(name \<mapsto> File bytes (clock w) (syscallMode perm))\<rparr>)
           | Some (File _ _ _) \<Rightarrow> (Some (Error (''open '' @ name @ '': not a directory'')), w)
           | None \<Rightarrow> (Some (Error (''open '' @ name @ '': no such file or directory'')), w)))"

definition ioutil_ReadFile :: "string \<Rightarrow> world \<Rightarrow> error + string" where
  "ioutil_ReadFile name w =
     (case nodes w name of
        None \<Rightarrow> Inl (Error (''open '' @ name @ '': no such file or directory''))
      | Some (Dir _ _) \<Rightarrow> Inl (Error (''read '' @ name @ '': is a directory''))
      | Some (File bytes _ _) \<Rightarrow> Inr bytes)"

text \<open>
  What \<open>cmd.Run()\<close> leaves behind: whether it returned an error (the process did not
  start or exited with a status other than zero) and the two captured streams.
\<close>

record proc =
  failed :: bool
  stdout :: string
  stderr :: string

section \<open>The structures of the program\<close>

text \<open>\<open>module.Version\<close> with its \<open>String\<close> method, and the two structures decoded from JSON.\<close>

record Version =
  mPath :: string
  mVersion :: string

definition Version_String :: "Version \<Rightarrow> string" where
  "Version_String m = (if mVersion m = [] then mPath m else mPath m @ ''@'' @ mVersion m)"

record downloadInfo =
  dPath :: string
  dVersion :: string
  dInfo :: string
  dGoMod :: string
  dZip :: string
  dDir :: string
  dSum :: string
  dGoModSum :: string

record listInfo =
  lPath :: string
  lVersions :: "string list"

text \<open>
  What the program takes from outside its own text: the global \<open>downloadRoot\<close>, set once
  by \<open>main\<close>; \<open>module.EscapePath\<close>; the external process behind \<open>exec.Command\<close>, which
  may change the files and let time pass; and \<open>json.Unmarshal\<close> at the two destination
  types, giving the decoded structure or the error.
\<close>

record env =
  downloadRoot :: string
  EscapePath :: "string \<Rightarrow> error + string"
  run :: "string list \<Rightarrow> world \<Rightarrow> proc \<times> world"
  unmarshalList :: "string \<Rightarrow> error + listInfo"
  unmarshalDownload :: "string \<Rightarrow> error + downloadInfo"

definition listExpire :: int where
  "listExpire = 5 * (60 * 1000000000)"

section \<open>goJSON\<close>

text \<open>
  \<open>goJSON(dst, command...)\<close>: \<open>Inr v\<close> is a \<open>nil\<close> error with \<open>v\<close> stored in \<open>dst\<close>. Indexing
  an empty command panics. The command line is appended to \<open>calls\<close> whatever the process
  did to the world.
\<close>

definition goJSON ::
  "(string \<Rightarrow> error + 'a) \<Rightarrow> (string list \<Rightarrow> world \<Rightarrow> proc \<times> world) \<Rightarrow> string list \<Rightarrow> world
     \<Rightarrow> (error + 'a) \<times> world" where
  "goJSON unmarshal exec command w =
     (if command = [] then (Inl (Panic ''runtime error: index out of range [0] with length 0''), w)
      else
        (let (p, w1) = exec command w;
             w2 = w1\<lparr>calls := calls w @ [command]\<rparr>
         in if failed p then
              (Inl (Error (Join command '' '' @ '':'' @ [CHR 0x0A] @ stderr p @ stdout p)), w2)
            else
              (case unmarshal (stdout p) of
                 Inl err \<Rightarrow> (Inl (Error (Join command '' '' @ '': reading json: '' @ errString err)), w2)
               | Inr v \<Rightarrow> (Inr v, w2))))"

section \<open>Package encoding/json: Unmarshal into the listing structure\<close>

text \<open>
  A model of \<open>json.Unmarshal\<close> at the destination of \<open>List\<close>, the zero value of
  \<open>struct { Path string; Versions []string }\<close>, for the concrete cases below. JSON texts
  are taken in a fragment: no numbers, and strings of 7-bit characters without escapes.
  \<open>Unsupported\<close> is the answer outside the fragment and wherever Go's error message is
  not spelled out here; nothing is said about those texts.

  A value is built as Go's scanner reads the text, one byte at a time, with a stack of
  the arrays and objects that are open (their elements and members newest first, an
  object with the key that was read last).
\<close>

datatype json = JNull | JBool bool | JString string | JArray "json list" | JObject "(string \<times> json) list"

datatype frame = InArray "json list" | InObject "(string \<times> json) list" string

datatype mode =
    BeginValue
  | BeginValueOrEmpty
  | BeginStringOrEmpty
  | BeginString
  | EndKey
  | EndValue
  | EndTop json
  | InString string bool
  | InLiteral string json

datatype outcome = Done json | Truncated | Other

text \<open>
  The steps of the scanner (\<open>stateBeginValue\<close>, \<open>stateBeginValueOrEmpty\<close>,
  \<open>stateBeginStringOrEmpty\<close>, \<open>stateBeginString\<close>, \<open>stateEndValue\<close> after a key and
  after a value, \<open>stateEndTop\<close>, \<open>stateInString\<close> and the states inside \<open>true\<close>,
  \<open>false\<close> and \<open>null\<close>); \<open>None\<close> is a byte the scanner refuses or one outside the
  fragment. No more than 10000 arrays and objects may be open. A text that ends before
  its value is complete is \<open>Truncated\<close>, except inside a literal, where Go reports the
  literal.
\<close>

definition isSpace :: "char \<Rightarrow> bool" where
  "isSpace c = (c = CHR '' '' \<or> c = CHR 0x09 \<or> c = CHR 0x0D \<or> c = CHR 0x0A)"

fun endValue :: "json \<Rightarrow> frame list \<Rightarrow> mode \<times> frame list" where
  "endValue v [] = (EndTop v, [])"
| "endValue v (InArray es # st) = (EndValue, InArray (v # es) # st)"
| "endValue v (InObject ms k # st) = (EndValue, InObject ((k, v) # ms) k # st)"

definition beginValue :: "frame list \<Rightarrow> char \<Rightarrow> (mode \<times> frame list) option" where
  "beginValue st c =
     (if isSpace c then Some (BeginValue, st)
      else if c = CHR ''{'' then
        (if length st < 10000 then Some (BeginStringOrEmpty, InObject [] [] # st) else None)
      else if c = CHR ''['' then
        (if length st < 10000 then Some (BeginValueOrEmpty, InArray [] # st) else None)
      else if c = CHR 0x22 then Some (InString [] False, st)
      else if c = CHR ''t'' then Some (InLiteral ''rue'' (JBool True), st)
      else if c = CHR ''f'' then Some (InLiteral ''alse'' (JBool False), st)
      else if c = CHR ''n'' then Some (InLiteral ''ull'' JNull, st)
      else None)"

fun step :: "mode \<Rightarrow> frame list \<Rightarrow> char \<Rightarrow> (mode \<times> frame list) option" where
  "step BeginValue st c = beginValue st c"
| "step BeginValueOrEmpty st c =
     (if isSpace c then Some (BeginValueOrEmpty, st)
      else if c = CHR '']'' then
        (case st of InArray es # r \<Rightarrow> Some (endValue (JArray (rev es)) r) | _ \<Rightarrow> None)
      else beginValue st c)"
| "step BeginStringOrEmpty st c =
     (if isSpace c then Some (BeginStringOrEmpty, st)
      else if c = CHR ''}'' then
        (case st of InObject ms k # r \<Rightarrow> Some (endValue (JObject (rev ms)) r) | _ \<Rightarrow> None)
      else if c = CHR 0x22 then Some (InString [] True, st)
      else None)"
| "step BeginString st c =
     (if isSpace c then Some (BeginString, st)
      else if c = CHR 0x22 then Some (InString [] True, st)
      else None)"
| "step EndKey st c =
     (if isSpace c then Some (EndKey, st)
      else if c = CHR '':'' then Some (BeginValue, st)
      else None)"
| "step EndValue st c =
     (if isSpace c then Some (EndValue, st)
      else (case st of
              InArray es # r \<Rightarrow>
                (if c = CHR '','' then Some (BeginValue, st)
                 else if c = CHR '']'' then Some (endValue (JArray (rev es)) r)
                 else None)
            | InObject ms k # r \<Rightarrow>
                (if c = CHR '','' then Some (BeginString, st)
                 else if c = CHR ''}'' then Some (endValue (JObject (rev ms)) r)
                 else None)
            | [] \<Rightarrow> None))"
| "step (EndTop v) st c = (if isSpace c then Some (EndTop v, st) else None)"
| "step (InString acc isKey) st c =
     (if c = CHR 0x22 then
        (if isKey then
           (case st of InObject ms k # r \<Rightarrow> Some (EndKey, InObject ms (rev acc) # r) | _ \<Rightarrow> None)
         else Some (endValue (JString (rev acc)) st))
      else if c = CHR 0x5C \<or> (of_char c :: nat) < 32 \<or> 128 \<le> (of_char c :: nat) then None
      else Some (InString (c # acc) isKey, st))"
| "step (InLiteral rest v) st c =
     (case rest of
        [] \<Rightarrow> None
      | r # rs \<Rightarrow>
          (if c \<noteq> r then None
           else if rs = [] then Some (endValue v st)
           else Some (InLiteral rs v, st)))"

fun scan :: "mode \<Rightarrow> frame list \<Rightarrow> string \<Rightarrow> outcome" where
  "scan m st [] = (case m of EndTop v \<Rightarrow> Done v | InLiteral rest v \<Rightarrow> Other | _ \<Rightarrow> Truncated)"
| "scan m st (c # cs) = (case step m st c of None \<Rightarrow> Other | Some (m1, st1) \<Rightarrow> scan m1 st1 cs)"

definition parseJSON :: "string \<Rightarrow> outcome" where
  "parseJSON text = scan BeginValue [] text"

text \<open>
  Decoding a value into the structure. \<open>null\<close> changes nothing; an array, a string or a
  boolean in place of the object is an \<open>UnmarshalTypeError\<close>; the members of an object
  are matched to the fields by name, without regard to case, and other members are
  skipped. A field takes a string (\<open>Path\<close>) or an array of strings (\<open>Versions\<close>, a \<open>null\<close>
  element being the empty string), and is left as it is by \<open>null\<close>. A member of another
  type, and a field met twice, are outside what is modelled.
\<close>

definition toLower :: "char \<Rightarrow> char" where
  "toLower c = (if 65 \<le> (of_char c :: nat) \<and> (of_char c :: nat) \<le> 90
                then char_of ((of_char c :: nat) + 32) else c)"

definition EqualFold :: "string \<Rightarrow> string \<Rightarrow> bool" where
  "EqualFold a b = (map toLower a = map toLower b)"

fun stringElems :: "json list \<Rightarrow> string list option" where
  "stringElems [] = Some []"
| "stringElems (JString s # es) = map_option ((#) s) (stringElems es)"
| "stringElems (JNull # es) = map_option ((#) []) (stringElems es)"
| "stringElems (_ # es) = None"

fun setFields :: "(string \<times> json) list \<Rightarrow> listInfo \<Rightarrow> bool \<Rightarrow> bool \<Rightarrow> error + listInfo" where
  "setFields [] l seenPath seenVersions = Inr l"
| "setFields ((k, v) # ms) l seenPath seenVersions =
     (if EqualFold k ''Path'' then
        (if seenPath then Inl Unsupported
         else (case v of
                 JString s \<Rightarrow> setFields ms (l\<lparr>lPath := s\<rparr>) True seenVersions
               | JNull \<Rightarrow> setFields ms l True seenVersions
               | _ \<Rightarrow> Inl Unsupported))
      else if EqualFold k ''Versions'' then
        (if seenVersions then Inl Unsupported
         else (case v of
                 JArray es \<Rightarrow>
                   (case stringElems es of
                      None \<Rightarrow> Inl Unsupported
                    | Some vs \<Rightarrow> setFields ms (l\<lparr>lVersions := vs\<rparr>) seenPath True)
               | JNull \<Rightarrow> setFields ms l seenPath True
               | _ \<Rightarrow> Inl Unsupported))
      else setFields ms l seenPath seenVersions)"

definition listTypeError :: "string \<Rightarrow> error" where
  "listTypeError what =
     Error (''json: cannot unmarshal '' @ what @
            '' into Go value of type struct { Path string; Versions []string }'')"

definition json_Unmarshal_list :: "string \<Rightarrow> error + listInfo" where
  "json_Unmarshal_list text =
     (case parseJSON text of
        Truncated \<Rightarrow> Inl (Error ''unexpected end of JSON input'')
      | Other \<Rightarrow> Inl Unsupported
      | Done JNull \<Rightarrow> Inr \<lparr>lPath = [], lVersions = []\<rparr>
      | Done (JBool b) \<Rightarrow> Inl (listTypeError ''bool'')
      | Done (JString s) \<Rightarrow> Inl (listTypeError ''string'')
      | Done (JArray es) \<Rightarrow> Inl (listTypeError ''array'')
      | Done (JObject ms) \<Rightarrow> setFields ms \<lparr>lPath = [], lVersions = []\<rparr> False False)"

section \<open>The logger\<close>

text \<open>
  The \<open>http.ResponseWriter\<close> of package \<open>net/http\<close>: the status line goes out once, with
  the first \<open>WriteHeader\<close>, or with status 200 at the first \<open>Write\<close> when none came before.
\<close>

record httpResponse =
  wroteHeader :: bool
  status :: int
  body :: string

definition http_WriteHeader :: "int \<Rightarrow> httpResponse \<Rightarrow> httpResponse" where
  "http_WriteHeader c w = (if wroteHeader w then w else w\<lparr>wroteHeader := True, status := c\<rparr>)"

definition http_Write :: "string \<Rightarrow> httpResponse \<Rightarrow> httpResponse" where
  "http_Write b w = (let w1 = (if wroteHeader w then w else http_WriteHeader 200 w)
                     in w1\<lparr>body := body w1 @ b\<rparr>)"

record responseLogger =
  code :: int
  ResponseWriter :: httpResponse

definition WriteHeader :: "int \<Rightarrow> responseLogger \<Rightarrow> responseLogger" where
  "WriteHeader c r = (let r1 = r\<lparr>code := c\<rparr>
                      in r1\<lparr>ResponseWriter := http_WriteHeader c (ResponseWriter r1)\<rparr>)"

text \<open>
  An inner handler is the sequence of calls it makes on the writer it is given.
  \<open>WriteHeader\<close> is the method of \<open>responseLogger\<close>; \<open>Write\<close> is promoted from the
  embedded writer and does not pass through it.
\<close>

datatype call = CallWriteHeader int | CallWrite string

fun handle :: "call list \<Rightarrow> responseLogger \<Rightarrow> responseLogger" where
  "handle [] rl = rl"
| "handle (CallWriteHeader c # cs) rl = handle cs (WriteHeader c rl)"
| "handle (CallWrite b # cs) rl = handle cs (rl\<lparr>ResponseWriter := http_Write b (ResponseWriter rl)\<rparr>)"

text \<open>The status codes a handler passes to \<open>WriteHeader\<close>, in the order of the calls.\<close>

fun writtenCodes :: "call list \<Rightarrow> int list" where
  "writtenCodes [] = []"
| "writtenCodes (CallWriteHeader c # cs) = c # writtenCodes cs"
| "writtenCodes (CallWrite b # cs) = writtenCodes cs"

text \<open>
  \<open>logger.ServeHTTP\<close>: the logged line is kept as its three fields (the elapsed time in
  nanoseconds, before formatting), with the response as the inner handler left it.
\<close>

record logLine =
  elapsed :: int
  logCode :: int
  target :: string

definition ServeHTTP :: "call list \<Rightarrow> httpResponse \<Rightarrow> string \<Rightarrow> int \<Rightarrow> int \<Rightarrow> logLine \<times> httpResponse" where
  "ServeHTTP h w url start finish =
     (let rl = \<lparr>code = 200, ResponseWriter = w\<rparr>;
          rl1 = handle h rl
      in (\<lparr>elapsed = finish - start, logCode = code rl1, target = url\<rparr>, ResponseWriter rl1))"

section \<open>The rules and the filter\<close>

record ops =
  whiteList :: "regexp list"
  blackList :: "regexp list"

text \<open>The loop of \<open>loadRules\<close> over the lines of the file, \<open>rules\<close> being what is compiled so far.\<close>

fun compileRules :: "string list \<Rightarrow> regexp list \<Rightarrow> error + regexp list" where
  "compileRules [] rules = Inr rules"
| "compileRules (l # ls) rules =
     (case Compile (''^'' @ l @ ''$'') of
        Inl err \<Rightarrow> Inl err
      | Inr r \<Rightarrow> compileRules ls (rules @ [r]))"

definition loadRules :: "string \<Rightarrow> world \<Rightarrow> error + regexp list" where
  "loadRules file w =
     (if file \<noteq> [] then
        (case ioutil_ReadFile file w of
           Inl err \<Rightarrow> Inl err
         | Inr b \<Rightarrow> compileRules (Split b (CHR 0x0A)) [])
      else Inr [])"

fun matchAny :: "regexp list \<Rightarrow> string \<Rightarrow> bool" where
  "matchAny [] path = False"
| "matchAny (r # rs) path = (if MatchString r path then True else matchAny rs path)"

definition isWhitelisted :: "ops \<Rightarrow> string \<Rightarrow> bool" where
  "isWhitelisted o' path = matchAny (whiteList o') path"

definition isBlacklisted :: "ops \<Rightarrow> string \<Rightarrow> bool" where
  "isBlacklisted o' path = matchAny (blackList o') path"

definition Filter :: "ops \<Rightarrow> string \<Rightarrow> bool" where
  "Filter o' path =
     (if length (whiteList o') > 0 \<and> isBlacklisted o' path then False
      else if length (whiteList o') > 0 \<and> \<not> isWhitelisted o' path then False
      else True)"

section \<open>List, Latest, Info, GoMod and Zip\<close>

text \<open>The bytes \<open>List\<close> writes for a list of versions (a \<open>nil\<close> slice is the empty one).\<close>

definition listData :: "string list \<Rightarrow> string" where
  "listData versions =
     (let bytes = Join versions [CHR 0x0A] @ [CHR 0x0A]
      in if length bytes = 1 then [] else bytes)"

text \<open>The number that a Go octal literal with the given digits denotes.\<close>

definition octal :: "nat list \<Rightarrow> 32 word" where
  "octal digits = foldl (\<lambda>a d. 8 * a + of_nat d) 0 digits"

definition listFile :: "env \<Rightarrow> string \<Rightarrow> string" where
  "listFile e escMod = filepath_Join (downloadRoot e) (escMod @ ''/@v/listproxy'')"

definition List :: "env \<Rightarrow> string \<Rightarrow> world \<Rightarrow> (error + node) \<times> world" where
  "List e mpath w =
     (case EscapePath e mpath of
        Inl err \<Rightarrow> (Inl err, w)
      | Inr escMod \<Rightarrow>
          (let file = listFile e escMod;
               fresh = (case os_Stat file w of
                          Inl _ \<Rightarrow> False
                        | Inr info \<Rightarrow> clock w - modTime info < listExpire)
           in if fresh then (os_Open file w, w)
              else
                (case goJSON (unmarshalList e) (run e)
                        [''go'', ''list'', ''-m'', ''-json'', ''-versions'', mpath @ ''@latest''] w of
                   (Inl err, w1) \<Rightarrow> (Inl err, w1)
                 | (Inr list, w1) \<Rightarrow>
                     if lPath list \<noteq> mpath then
                       (Inl (Error (''go list -m: asked for '' @ mpath @ '' but got '' @ lPath list)), w1)
                     else
                       (let bytes = listData (lVersions list);
                            (_, w2) = os_MkdirAll (path_Dir file) 755 w1
                        in (case ioutil_WriteFile file bytes 438 w2 of
                              (Some err, w3) \<Rightarrow> (Inl err, w3)
                            | (None, w3) \<Rightarrow> (os_Open file w3, w3))))))"

definition download :: "env \<Rightarrow> Version \<Rightarrow> world \<Rightarrow> (error + downloadInfo) \<times> world" where
  "download e m w =
     goJSON (unmarshalDownload e) (run e) [''go'', ''mod'', ''download'', ''-json'', Version_String m] w"

definition Latest :: "env \<Rightarrow> string \<Rightarrow> world \<Rightarrow> (error + node) \<times> world" where
  "Latest e path w =
     (case download e \<lparr>mPath = path, mVersion = ''latest''\<rparr> w of
        (Inl err, w1) \<Rightarrow> (Inl err, w1)
      | (Inr d, w1) \<Rightarrow> (os_Open (dInfo d) w1, w1))"

definition Info :: "env \<Rightarrow> Version \<Rightarrow> world \<Rightarrow> (error + node) \<times> world" where
  "Info e m w =
     (case download e m w of
        (Inl err, w1) \<Rightarrow> (Inl err, w1)
      | (Inr d, w1) \<Rightarrow> (os_Open (dInfo d) w1, w1))"

definition GoMod :: "env \<Rightarrow> Version \<Rightarrow> world \<Rightarrow> (error + node) \<times> world" where
  "GoMod e m w =
     (case download e m w of
        (Inl err, w1) \<Rightarrow> (Inl err, w1)
      | (Inr d, w1) \<Rightarrow> (os_Open (dGoMod d) w1, w1))"

definition Zip :: "env \<Rightarrow> Version \<Rightarrow> world \<Rightarrow> (error + node) \<times> world" where
  "Zip e m w =
     (case download e m w of
        (Inl err, w1) \<Rightarrow> (Inl err, w1)
      | (Inr d, w1) \<Rightarrow> (os_Open (dZip d) w1, w1))"

section \<open>An example environment\<close>

text \<open>
  For the concrete cases below: module paths escape to themselves, the process echoes
  its command line on standard output and succeeds after one nanosecond, the listing of
  \<open>example/module\<close> decodes to another path and any other listing to module \<open>m\<close> with
  two versions, and a download decodes to the files of \<open>m@v1.1.0\<close>.
\<close>

definition exampleEnv :: env where
  "exampleEnv =
     \<lparr>downloadRoot = ''/d'',
      EscapePath = Inr,
      run = (\<lambda>command w. (\<lparr>failed = False, stdout = Join command '' '', stderr = []\<rparr>,
                            w\<lparr>clock := clock w + 1\<rparr>)),
      unmarshalList = (\<lambda>s. if s = ''go list -m -json -versions example/module@latest''
                            then Inr \<lparr>lPath = ''other/module'', lVersions = [''v0.1.0'']\<rparr>
                            else Inr \<lparr>lPath = ''m'', lVersions = [''v1.0.0'', ''v1.1.0'']\<rparr>),
      unmarshalDownload = (\<lambda>s. Inr \<lparr>dPath = ''m'', dVersion = ''v1.1.0'',
                                      dInfo = ''/d/m/@v/v1.1.0.info'', dGoMod = ''/d/m/@v/v1.1.0.mod'',
                                      dZip = ''/d/m/@v/v1.1.0.zip'', dDir = [], dSum = [],
                                      dGoModSum = []\<rparr>)\<rparr>"

text \<open>
  Two processes: one prints a text on standard output and exits with status zero, the
  other prints on both streams and exits with another status. Neither touches the world.
\<close>

definition printing :: "string \<Rightarrow> string list \<Rightarrow> world \<Rightarrow> proc \<times> world" where
  "printing out command w = (\<lparr>failed = False, stdout = out, stderr = []\<rparr>, w)"

definition failing :: "string \<Rightarrow> string \<Rightarrow> string list \<Rightarrow> world \<Rightarrow> proc \<times> world" where
  "failing out err command w = (\<lparr>failed = True, stdout = out, stderr = err\<rparr>, w)"

section \<open>The filter\<close>

lemma matchAny_iff: "matchAny rs path \<longleftrightarrow> (\<exists>r\<in>set rs. MatchString r path)"
  by (induction rs) auto

text \<open>
  C1. The claim: whenever the path matches a deny rule, \<open>Filter\<close> returns false, whatever
  the allow list holds. The code guards the deny check with \<open>len(o.whiteList) > 0\<close>, so
  with an empty allow list it is skipped. Evaluated here: no allow file and a deny file
  holding the one rule \<open>evil/.*\<close>; the path \<open>evil/pkg\<close> matches the deny rule and
  \<open>Filter\<close> still returns true.
\<close>

theorem Filter_blacklisted_without_whitelist:
  "loadRules [] \<lparr>nodes = [''deny'' \<mapsto> File ''evil/.*'' 0 420], clock = 0, calls = []\<rparr> = Inr [] \<and>
   loadRules ''deny'' \<lparr>nodes = [''deny'' \<mapsto> File ''evil/.*'' 0 420], clock = 0, calls = []\<rparr>
     = Inr [Concat (Concat (Concat (Concat (Concat (Concat (Concat BeginText
         (Literal CHR ''e'')) (Literal CHR ''v'')) (Literal CHR ''i'')) (Literal CHR ''l''))
         (Literal CHR ''/'')) (Star AnyCharNotNL)) EndText] \<and>
   isBlacklisted \<lparr>whiteList = [], blackList = [Concat (Concat (Concat (Concat (Concat (Concat (Concat BeginText
         (Literal CHR ''e'')) (Literal CHR ''v'')) (Literal CHR ''i'')) (Literal CHR ''l''))
         (Literal CHR ''/'')) (Star AnyCharNotNL)) EndText]\<rparr> ''evil/pkg'' \<and>
   Filter \<lparr>whiteList = [], blackList = [Concat (Concat (Concat (Concat (Concat (Concat (Concat BeginText
         (Literal CHR ''e'')) (Literal CHR ''v'')) (Literal CHR ''i'')) (Literal CHR ''l''))
         (Literal CHR ''/'')) (Star AnyCharNotNL)) EndText]\<rparr> ''evil/pkg''"
  by (simp add: loadRules_def ioutil_ReadFile_def Compile_def metachars_def
        isBlacklisted_def Filter_def MatchString_def)

text \<open>
  C7. For a path that matches no deny rule, \<open>Filter\<close> returns true exactly when the allow
  list is empty or the path matches one of its rules; with no rule at all it returns true
  for every path.
\<close>

theorem Filter_allow:
  "((\<forall>r\<in>set (blackList o'). \<not> MatchString r path) \<longrightarrow>
      (Filter o' path \<longleftrightarrow> whiteList o' = [] \<or> (\<exists>r\<in>set (whiteList o'). MatchString r path))) \<and>
   (whiteList o' = [] \<and> blackList o' = [] \<longrightarrow> Filter o' path)"
  by (auto simp: Filter_def isBlacklisted_def isWhitelisted_def matchAny_iff)

theorem Filter_allow_witness:
  "\<not> MatchString (Concat (Concat BeginText (Literal CHR ''b'')) EndText) ''a'' \<and>
   Filter \<lparr>whiteList = [Concat (Concat BeginText (Literal CHR ''a'')) EndText],
           blackList = [Concat (Concat BeginText (Literal CHR ''b'')) EndText]\<rparr> ''a'' \<and>
   \<not> Filter \<lparr>whiteList = [Concat (Concat BeginText (Literal CHR ''a'')) EndText],
           blackList = [Concat (Concat BeginText (Literal CHR ''b'')) EndText]\<rparr> ''c'' \<and>
   Filter \<lparr>whiteList = [], blackList = []\<rparr> ''a''"
proof -
  let ?o = "\<lparr>whiteList = [Concat (Concat BeginText (Literal CHR ''a'')) EndText],
             blackList = [Concat (Concat BeginText (Literal CHR ''b'')) EndText]\<rparr>"
  have a: "\<forall>r\<in>set (blackList ?o). \<not> MatchString r ''a''"
    by (simp add: MatchString_def)
  have c: "\<forall>r\<in>set (blackList ?o). \<not> MatchString r ''c''"
    by (simp add: MatchString_def)
  have wa: "\<exists>r\<in>set (whiteList ?o). MatchString r ''a''"
    by (simp add: MatchString_def)
  have wc: "\<not> (\<exists>r\<in>set (whiteList ?o). MatchString r ''c'')"
    by (simp add: MatchString_def)
  from a wa have 1: "Filter ?o ''a''"
    using Filter_allow [of ?o "''a''"] by blast
  from c wc have 2: "\<not> Filter ?o ''c''"
    using Filter_allow [of ?o "''c''"] by simp
  have 3: "Filter \<lparr>whiteList = [], blackList = []\<rparr> ''a''"
    using Filter_allow [of "\<lparr>whiteList = [], blackList = []\<rparr>" "''a''"] by simp
  have b: "\<not> MatchString (Concat (Concat BeginText (Literal CHR ''b'')) EndText) ''a''"
    using a by simp
  from b 1 2 3 show ?thesis by blast
qed

text \<open>
  C3, as stated, fails: a rule file whose one rule ends with a newline compiles to two
  patterns, the second being \<open>^$\<close> from the empty last line, and the empty path matches
  that non-empty list, be it the allow or the deny list.
\<close>

theorem empty_path_matches_counterexample:
  "loadRules ''allow'' \<lparr>nodes = [''allow'' \<mapsto> File ''a.*\<newline>'' 0 420], clock = 0, calls = []\<rparr>
     = Inr [Concat (Concat (Concat BeginText (Literal CHR ''a'')) (Star AnyCharNotNL)) EndText,
            Concat BeginText EndText] \<and>
   isWhitelisted \<lparr>whiteList = [Concat (Concat (Concat BeginText (Literal CHR ''a'')) (Star AnyCharNotNL)) EndText,
                               Concat BeginText EndText], blackList = []\<rparr> [] \<and>
   isBlacklisted \<lparr>whiteList = [], blackList = [Concat (Concat (Concat BeginText (Literal CHR ''a'')) (Star AnyCharNotNL)) EndText,
                               Concat BeginText EndText]\<rparr> []"
  by (simp add: loadRules_def ioutil_ReadFile_def Compile_def metachars_def
        isBlacklisted_def isWhitelisted_def MatchString_def)

text \<open>
  C3, amended. The empty module path matches a compiled pattern list (allow or deny)
  exactly when one of its patterns matches the empty string, so it never matches an
  empty list; and \<open>Filter\<close> returns false on the empty path only when an allow list
  exists.
\<close>

theorem empty_path_rules:
  "(isWhitelisted o' [] \<longleftrightarrow> (\<exists>r\<in>set (whiteList o'). MatchString r [])) \<and>
   (isBlacklisted o' [] \<longleftrightarrow> (\<exists>r\<in>set (blackList o'). MatchString r [])) \<and>
   (\<not> Filter o' [] \<longrightarrow> whiteList o' \<noteq> [])"
  by (auto simp: Filter_def isBlacklisted_def isWhitelisted_def matchAny_iff)

theorem empty_path_rules_witness:
  "\<not> Filter \<lparr>whiteList = [Concat (Concat BeginText (Literal CHR ''a'')) EndText], blackList = []\<rparr> [] \<and>
   whiteList \<lparr>whiteList = [Concat (Concat BeginText (Literal CHR ''a'')) EndText], blackList = []\<rparr> \<noteq> [] \<and>
   isWhitelisted \<lparr>whiteList = [Concat BeginText EndText], blackList = []\<rparr> [] \<and>
   (\<exists>r\<in>set (whiteList \<lparr>whiteList = [Concat BeginText EndText], blackList = []\<rparr>). MatchString r [])"
proof -
  let ?o = "\<lparr>whiteList = [Concat (Concat BeginText (Literal CHR ''a'')) EndText], blackList = []\<rparr>"
  let ?p = "\<lparr>whiteList = [Concat BeginText EndText], blackList = []\<rparr>"
  have f: "\<not> Filter ?o []"
    by (simp add: Filter_def isWhitelisted_def isBlacklisted_def MatchString_def)
  have m: "\<exists>r\<in>set (whiteList ?p). MatchString r []"
    by (simp add: MatchString_def)
  from f have "whiteList ?o \<noteq> []"
    using empty_path_rules [of ?o] by blast
  moreover from m have "isWhitelisted ?p []"
    using empty_path_rules [of ?p] by blast
  ultimately show ?thesis using f m by blast
qed

section \<open>The logger\<close>

lemma code_handle: "code (handle h rl) = last (code rl # writtenCodes h)"
proof (induction h arbitrary: rl)
  case Nil
  then show ?case by simp
next
  case (Cons c cs)
  then show ?case by (cases c) (simp_all add: WriteHeader_def Let_def)
qed

lemma writtenCodes_append: "writtenCodes (a @ b) = writtenCodes a @ writtenCodes b"
  by (induction a rule: writtenCodes.induct) simp_all

text \<open>
  C2, as stated, fails: for the handler that writes status 404 and then status 500 the
  logged code is 500, while the response itself went out with 404.
\<close>

theorem logged_code_counterexample:
  "logCode (fst (ServeHTTP [CallWriteHeader 404, CallWriteHeader 500]
                   \<lparr>wroteHeader = False, status = 0, body = []\<rparr> ''/m/@v/list'' 0 1)) = 500 \<and>
   status (snd (ServeHTTP [CallWriteHeader 404, CallWriteHeader 500]
                   \<lparr>wroteHeader = False, status = 0, body = []\<rparr> ''/m/@v/list'' 0 1)) = 404"
  by (simp add: ServeHTTP_def WriteHeader_def http_WriteHeader_def Let_def)

text \<open>
  C2, amended. The status code logged is the last status code the inner handler
  explicitly writes, and 200 when it writes none: for every inner handler that writes
  status 404 and afterwards writes status 500 as its last status, the logged code is 500.
\<close>

theorem logged_code_last:
  "logCode (fst (ServeHTTP h w url start finish)) = last (200 # writtenCodes h) \<and>
   (writtenCodes h3 = [] \<longrightarrow>
      logCode (fst (ServeHTTP (h1 @ CallWriteHeader 404 # h2 @ CallWriteHeader 500 # h3) w url start finish))
        = 500)"
  by (simp add: ServeHTTP_def Let_def code_handle writtenCodes_append)

theorem logged_code_last_witness:
  "writtenCodes [CallWrite ''gone''] = [] \<and>
   logCode (fst (ServeHTTP ([] @ CallWriteHeader 404 # [CallWrite ''not found''] @ CallWriteHeader 500 # [CallWrite ''gone''])
                   \<lparr>wroteHeader = False, status = 0, body = []\<rparr> ''/m/@v/list'' 0 1)) = 500"
proof -
  have h: "writtenCodes [CallWrite ''gone''] = []" by simp
  then show ?thesis
    using logged_code_last [of "[]" "\<lparr>wroteHeader = False, status = 0, body = []\<rparr>" "''/m/@v/list''" 0 1
        "[CallWrite ''gone'']" "[]" "[CallWrite ''not found'']"]
    by blast
qed

section \<open>goJSON\<close>

lemmas json_defs = json_Unmarshal_list_def parseJSON_def beginValue_def isSpace_def EqualFold_def
  toLower_def listTypeError_def

text \<open>
  C8, as stated, fails: the text \<open>[]\<close> is valid JSON, and for a process that prints it
  and exits with status zero \<open>goJSON\<close>, decoding into the listing structure, returns the
  decode error: an array does not fit a structure.
\<close>

theorem goJSON_valid_json_counterexample:
  "parseJSON ''[]'' = Done (JArray []) \<and>
   \<not> failed (fst (printing ''[]'' [''go'', ''list'', ''-m'', ''-json'', ''-versions'', ''m@latest'']
                       \<lparr>nodes = Map.empty, clock = 0, calls = []\<rparr>)) \<and>
   fst (goJSON json_Unmarshal_list (printing ''[]'')
          [''go'', ''list'', ''-m'', ''-json'', ''-versions'', ''m@latest'']
          \<lparr>nodes = Map.empty, clock = 0, calls = []\<rparr>)
     = Inl (Error (''go list -m -json -versions m@latest: reading json: '' @
                   ''json: cannot unmarshal array into Go value of type '' @
                   ''struct { Path string; Versions []string }''))"
  by (simp add: goJSON_def printing_def json_defs)

text \<open>
  C8, amended. For a command that is not empty and an arbitrary process: when \<open>cmd.Run\<close>
  reports failure, \<open>goJSON\<close> returns the error made of the command line, a colon and a
  newline, the captured standard error and the captured standard output; when the
  process succeeds and \<open>json.Unmarshal\<close> rejects the output for the destination (JSON
  that is malformed, or well formed and of another shape than the destination), it
  returns the error made of the command line, \<open>: reading json: \<close> and the decoder's
  message; when \<open>json.Unmarshal\<close> accepts the output, it returns the decoded value and no
  error.
\<close>

theorem goJSON_cases:
  assumes "command \<noteq> []" and "exec command w = (p, w1)"
  shows "(failed p \<longrightarrow>
            fst (goJSON unmarshal exec command w)
              = Inl (Error (Join command '' '' @ '':'' @ [CHR 0x0A] @ stderr p @ stdout p))) \<and>
         (\<not> failed p \<longrightarrow>
            (\<forall>err. unmarshal (stdout p) = Inl err \<longrightarrow>
               fst (goJSON unmarshal exec command w)
                 = Inl (Error (Join command '' '' @ '': reading json: '' @ errString err))) \<and>
            (\<forall>v. unmarshal (stdout p) = Inr v \<longrightarrow> fst (goJSON unmarshal exec command w) = Inr v))"
  using assms by (simp add: goJSON_def Let_def)

theorem goJSON_cases_witness:
  \<open>fst (goJSON json_Unmarshal_list (failing ''out'' ''err'') [''go'', ''list'']
          \<lparr>nodes = Map.empty, clock = 0, calls = []\<rparr>)
     = Inl (Error ''go list:\<newline>errout'') \<and>
   fst (goJSON json_Unmarshal_list (printing ''{"Path":"m"'') [''go'', ''list'']
          \<lparr>nodes = Map.empty, clock = 0, calls = []\<rparr>)
     = Inl (Error ''go list: reading json: unexpected end of JSON input'') \<and>
   fst (goJSON json_Unmarshal_list (printing ''{"Path":"m","Versions":["v1.0.0","v1.1.0"]}'')
          [''go'', ''list''] \<lparr>nodes = Map.empty, clock = 0, calls = []\<rparr>)
     = Inr \<lparr>lPath = ''m'', lVersions = [''v1.0.0'', ''v1.1.0'']\<rparr>\<close>
proof -
  let ?w = "\<lparr>nodes = Map.empty, clock = 0, calls = []\<rparr>"
  let ?c = "[''go'', ''list'']"
  let ?t = \<open>''{"Path":"m"''\<close>
  let ?j = \<open>''{"Path":"m","Versions":["v1.0.0","v1.1.0"]}''\<close>
  have ne: "?c \<noteq> []" by simp
  have 1: "fst (goJSON json_Unmarshal_list (failing ''out'' ''err'') ?c ?w)
     = Inl (Error ''go list:\<newline>errout'')"
    using goJSON_cases [OF ne, of "failing ''out'' ''err''" ?w
        "\<lparr>failed = True, stdout = ''out'', stderr = ''err''\<rparr>" ?w json_Unmarshal_list]
    by (simp add: failing_def)
  have t: "json_Unmarshal_list ?t = Inl (Error ''unexpected end of JSON input'')"
    by (simp add: json_defs)
  have 2: "fst (goJSON json_Unmarshal_list (printing ?t) ?c ?w)
     = Inl (Error ''go list: reading json: unexpected end of JSON input'')"
    using t goJSON_cases [OF ne, of "printing ?t" ?w
        "\<lparr>failed = False, stdout = ?t, stderr = []\<rparr>" ?w json_Unmarshal_list]
    by (simp add: printing_def)
  have j: "json_Unmarshal_list ?j = Inr \<lparr>lPath = ''m'', lVersions = [''v1.0.0'', ''v1.1.0'']\<rparr>"
    by (simp add: json_defs)
  have 3: "fst (goJSON json_Unmarshal_list (printing ?j) ?c ?w)
     = Inr \<lparr>lPath = ''m'', lVersions = [''v1.0.0'', ''v1.1.0'']\<rparr>"
    using j goJSON_cases [OF ne, of "printing ?j" ?w
        "\<lparr>failed = False, stdout = ?j, stderr = []\<rparr>" ?w json_Unmarshal_list]
    by (simp add: printing_def)
  from 1 2 3 show ?thesis by blast
qed

section \<open>List\<close>

lemma os_Open_Inr: "os_Open name w = Inr n \<longleftrightarrow> nodes w name = Some n"
  by (simp add: os_Open_def split: option.splits)

lemma goJSON_calls:
  "goJSON u x command w = (r, w1) \<Longrightarrow> calls w1 = calls w \<or> calls w1 = calls w @ [command]"
  by (auto simp: goJSON_def Let_def split: if_splits prod.splits sum.splits)

lemma mkdirs_calls: "mkdirs ds perm w = (r, w1) \<Longrightarrow> calls w1 = calls w \<and> clock w1 = clock w"
  by (induction ds perm w rule: mkdirs.induct) (auto split: option.splits node.splits)

lemma WriteFile_calls:
  "ioutil_WriteFile name b perm w = (r, w1) \<Longrightarrow> calls w1 = calls w \<and> clock w1 = clock w"
  by (auto simp: ioutil_WriteFile_def split: option.splits node.splits)

lemma List_hit:
  assumes "EscapePath e mpath = Inr escMod"
    and "nodes w (listFile e escMod) = Some n"
    and "clock w - modTime n < listExpire"
  shows "List e mpath w = (Inr n, w)"
  using assms by (simp add: List_def Let_def os_Stat_def os_Open_def)

lemma List_Inr:
  assumes "List e mpath w = (Inr f, w1)" and "EscapePath e mpath = Inr escMod"
  shows "nodes w1 (listFile e escMod) = Some f \<and> length (calls w1) \<le> Suc (length (calls w))"
proof (cases "case os_Stat (listFile e escMod) w of Inl _ \<Rightarrow> False
              | Inr info \<Rightarrow> clock w - modTime info < listExpire")
  case True
  with assms show ?thesis
    by (auto simp: List_def Let_def os_Open_Inr)
next
  case False
  let ?cmd = "[''go'', ''list'', ''-m'', ''-json'', ''-versions'', mpath @ ''@latest'']"
  obtain r wa where g: "goJSON (unmarshalList e) (run e) ?cmd w = (r, wa)"
    by (cases "goJSON (unmarshalList e) (run e) ?cmd w")
  obtain l where r: "r = Inr l" "lPath l = mpath"
    using assms False g by (cases r) (auto simp: List_def Let_def split: if_splits)
  obtain m wb where mk: "os_MkdirAll (path_Dir (listFile e escMod)) 755 wa = (m, wb)"
    by (cases "os_MkdirAll (path_Dir (listFile e escMod)) 755 wa")
  obtain x wc where wr: "ioutil_WriteFile (listFile e escMod) (listData (lVersions l)) 438 wb = (x, wc)"
    by (cases "ioutil_WriteFile (listFile e escMod) (listData (lVersions l)) 438 wb")
  from assms False g r mk wr have res: "x = None" "w1 = wc" "os_Open (listFile e escMod) wc = Inr f"
    by (auto simp: List_def Let_def split: option.splits)
  have "calls wc = calls wa"
    using mkdirs_calls [of _ _ wa m wb] WriteFile_calls [OF wr] mk by (simp add: os_MkdirAll_def)
  moreover have "length (calls wa) \<le> Suc (length (calls w))"
    using goJSON_calls [OF g] by auto
  ultimately show ?thesis using res by (simp add: os_Open_Inr)
qed

text \<open>
  C4. When the module path escapes and its cache file exists with a modification time
  less than \<open>listExpire\<close> (5 minutes) before the clock, \<open>List\<close> returns that file as it is
  and leaves the world, the list of toolchain invocations included, unchanged. And when
  a call of \<open>List\<close> has returned a file, a second call made while that file is less than
  5 minutes old returns the same file and invokes nothing: the two calls together have
  invoked the toolchain at most once.
\<close>

theorem List_cache_hit:
  "(EscapePath e mpath = Inr escMod \<and> nodes w (listFile e escMod) = Some (File bytes t m) \<and>
      clock w - t < listExpire
    \<longrightarrow> List e mpath w = (Inr (File bytes t m), w)) \<and>
   (EscapePath e mpath = Inr escMod \<and> List e mpath w = (Inr f, w1) \<and> now - modTime f < listExpire
    \<longrightarrow> List e mpath (w1\<lparr>clock := now\<rparr>) = (Inr f, w1\<lparr>clock := now\<rparr>) \<and>
        length (calls (w1\<lparr>clock := now\<rparr>)) \<le> Suc (length (calls w)))"
proof (intro conjI impI)
  assume "EscapePath e mpath = Inr escMod \<and> nodes w (listFile e escMod) = Some (File bytes t m) \<and>
      clock w - t < listExpire"
  then show "List e mpath w = (Inr (File bytes t m), w)"
    using List_hit [of e mpath escMod w "File bytes t m"] by simp
next
  assume a: "EscapePath e mpath = Inr escMod \<and> List e mpath w = (Inr f, w1) \<and> now - modTime f < listExpire"
  then have n: "nodes w1 (listFile e escMod) = Some f"
    using List_Inr [of e mpath w f w1 escMod] by simp
  with a show "List e mpath (w1\<lparr>clock := now\<rparr>) = (Inr f, w1\<lparr>clock := now\<rparr>)"
    using List_hit [of e mpath escMod "w1\<lparr>clock := now\<rparr>" f] by simp
next
  assume a: "EscapePath e mpath = Inr escMod \<and> List e mpath w = (Inr f, w1) \<and> now - modTime f < listExpire"
  then show "length (calls (w1\<lparr>clock := now\<rparr>)) \<le> Suc (length (calls w))"
    using List_Inr [of e mpath w f w1 escMod] by simp
qed

lemmas eval_defs = exampleEnv_def List_def Let_def os_Stat_def os_Open_def goJSON_def listFile_def
  filepath_Join_def listData_def os_MkdirAll_def ancestors_def path_Dir_def ioutil_WriteFile_def
  listExpire_def syscallMode_def

theorem List_cache_hit_witness:
  "List exampleEnv ''m''
     \<lparr>nodes = [''/d/m/@v/listproxy'' \<mapsto> File ''v1.0.0\<newline>'' 0 438], clock = 1000, calls = []\<rparr>
     = (Inr (File ''v1.0.0\<newline>'' 0 438),
        \<lparr>nodes = [''/d/m/@v/listproxy'' \<mapsto> File ''v1.0.0\<newline>'' 0 438], clock = 1000, calls = []\<rparr>) \<and>
   fst (List exampleEnv ''m'' \<lparr>nodes = Map.empty, clock = 0, calls = []\<rparr>)
     = Inr (File ''v1.0.0\<newline>v1.1.0\<newline>'' 1 438) \<and>
   fst (List exampleEnv ''m''
          ((snd (List exampleEnv ''m'' \<lparr>nodes = Map.empty, clock = 0, calls = []\<rparr>))\<lparr>clock := 2000\<rparr>))
     = Inr (File ''v1.0.0\<newline>v1.1.0\<newline>'' 1 438) \<and>
   calls (snd (List exampleEnv ''m''
          ((snd (List exampleEnv ''m'' \<lparr>nodes = Map.empty, clock = 0, calls = []\<rparr>))\<lparr>clock := 2000\<rparr>)))
     = [[''go'', ''list'', ''-m'', ''-json'', ''-versions'', ''m@latest'']]"
proof -
  let ?w = "\<lparr>nodes = [''/d/m/@v/listproxy'' \<mapsto> File ''v1.0.0\<newline>'' 0 438], clock = 1000, calls = []\<rparr>"
  let ?v = "\<lparr>nodes = Map.empty, clock = 0, calls = []\<rparr>"
  let ?f = "File ''v1.0.0\<newline>v1.1.0\<newline>'' 1 438"
  let ?u = "snd (List exampleEnv ''m'' ?v)"
  have esc: "EscapePath exampleEnv ''m'' = Inr ''m''"
    by (simp add: exampleEnv_def)
  have h: "nodes ?w (listFile exampleEnv ''m'') = Some (File ''v1.0.0\<newline>'' 0 438) \<and>
           clock ?w - 0 < listExpire"
    by (simp add: exampleEnv_def listFile_def filepath_Join_def listExpire_def)
  have 1: "List exampleEnv ''m'' ?w = (Inr (File ''v1.0.0\<newline>'' 0 438), ?w)"
    using esc h List_cache_hit [where e = exampleEnv and mpath = "''m''" and escMod = "''m''"
        and w = ?w and bytes = "''v1.0.0\<newline>''" and t = 0 and m = 438]
    by blast
  have f: "fst (List exampleEnv ''m'' ?v) = Inr ?f"
    by (simp add: eval_defs)
  then have l: "List exampleEnv ''m'' ?v = (Inr ?f, ?u)"
    by (simp add: prod_eq_iff)
  have c: "calls ?u = [[''go'', ''list'', ''-m'', ''-json'', ''-versions'', ''m@latest'']]"
    by (simp add: eval_defs)
  have n: "2000 - modTime ?f < listExpire"
    by (simp add: listExpire_def)
  have 2: "List exampleEnv ''m'' (?u\<lparr>clock := 2000\<rparr>) = (Inr ?f, ?u\<lparr>clock := 2000\<rparr>)"
    using esc l n List_cache_hit [where e = exampleEnv and mpath = "''m''" and escMod = "''m''"
        and w = ?v and f = ?f and ?w1.0 = ?u and now = 2000]
    by blast
  from 1 f 2 c show ?thesis by simp
qed

text \<open>
  C5. When the cache file is missing or stale, the toolchain succeeds and its listing
  decodes to a path other than the requested one, \<open>List\<close> returns the error
  \<open>go list -m: asked for P but got Q\<close> naming both paths, and the world it returns is
  the one the toolchain process left, with the invocation recorded: \<open>List\<close> creates no
  directory and writes no file.
\<close>

theorem List_path_mismatch:
  assumes "EscapePath e mpath = Inr escMod"
    and "\<forall>n. nodes w (listFile e escMod) = Some n \<longrightarrow> \<not> clock w - modTime n < listExpire"
    and "run e [''go'', ''list'', ''-m'', ''-json'', ''-versions'', mpath @ ''@latest''] w = (p, w1)"
    and "\<not> failed p"
    and "unmarshalList e (stdout p) = Inr l"
    and "lPath l \<noteq> mpath"
  shows "List e mpath w =
           (Inl (Error (''go list -m: asked for '' @ mpath @ '' but got '' @ lPath l)),
            w1\<lparr>calls := calls w @ [[''go'', ''list'', ''-m'', ''-json'', ''-versions'', mpath @ ''@latest'']]\<rparr>) \<and>
         nodes (snd (List e mpath w)) = nodes w1"
  using assms
  by (auto simp: List_def Let_def os_Stat_def goJSON_def split: option.splits)

theorem List_path_mismatch_witness:
  "List exampleEnv ''example/module'' \<lparr>nodes = Map.empty, clock = 0, calls = []\<rparr>
     = (Inl (Error ''go list -m: asked for example/module but got other/module''),
        \<lparr>nodes = Map.empty, clock = 1,
         calls = [[''go'', ''list'', ''-m'', ''-json'', ''-versions'', ''example/module@latest'']]\<rparr>)"
proof -
  let ?w = "\<lparr>nodes = Map.empty, clock = 0, calls = []\<rparr>"
  let ?cmd = "[''go'', ''list'', ''-m'', ''-json'', ''-versions'', ''example/module'' @ ''@latest'']"
  let ?p = "\<lparr>failed = False, stdout = Join ?cmd '' '', stderr = []\<rparr>"
  let ?l = "\<lparr>lPath = ''other/module'', lVersions = [''v0.1.0'']\<rparr>"
  have "EscapePath exampleEnv ''example/module'' = Inr ''example/module''"
    by (simp add: exampleEnv_def)
  moreover have "\<forall>n. nodes ?w (listFile exampleEnv ''example/module'') = Some n
      \<longrightarrow> \<not> clock ?w - modTime n < listExpire"
    by simp
  moreover have "run exampleEnv ?cmd ?w = (?p, ?w\<lparr>clock := 1\<rparr>)"
    by (simp add: exampleEnv_def)
  moreover have "\<not> failed ?p" by simp
  moreover have "unmarshalList exampleEnv (stdout ?p) = Inr ?l"
    by (simp add: exampleEnv_def)
  moreover have "lPath ?l \<noteq> ''example/module''" by simp
  ultimately show ?thesis
    using List_path_mismatch [of exampleEnv "''example/module''" "''example/module''" ?w ?p
        "?w\<lparr>clock := 1\<rparr>" ?l]
    by simp
qed

lemma Join_empty_iff:
  "Join vs sep = [] \<longleftrightarrow> vs = [] \<or> vs = [[]] \<or> (sep = [] \<and> set vs \<subseteq> {[]})"
  by (induction vs sep rule: Join.induct) auto

text \<open>
  C6, as stated, fails: the list that holds one empty version string is not empty, its
  entries joined and followed by a newline are the single newline, and \<open>List\<close> writes
  the empty byte stream for it.
\<close>

theorem listData_counterexample:
  "[[]] \<noteq> ([] :: string list) \<and> listData [[]] = [] \<and> Join [[]] [CHR 0x0A] @ [CHR 0x0A] = [CHR 0x0A]"
  by (simp add: listData_def)

text \<open>
  C6, amended. \<open>List\<close> serializes the version list by joining the entries with newlines
  and adding a trailing newline, \<open>["v1.0.0","v1.1.0"]\<close> giving \<open>"v1.0.0\nv1.1.0\n"\<close>,
  except that a list whose result would be the single newline, which is the empty list
  and the list of one empty string, serializes to the empty byte stream.
\<close>

theorem listData_eq:
  "listData vs = (if vs = [] \<or> vs = [[]] then [] else Join vs [CHR 0x0A] @ [CHR 0x0A]) \<and>
   listData [''v1.0.0'', ''v1.1.0''] = ''v1.0.0\<newline>v1.1.0\<newline>'' \<and>
   listData [] = []"
  using Join_empty_iff [of vs "[CHR 0x0A]"]
  by (auto simp: listData_def Let_def)

lemma ancestors_aux_last: "acc @ p \<noteq> [] \<Longrightarrow> rev acc @ p \<in> set (ancestors_aux acc p)"
proof (induction p arbitrary: acc)
  case Nil
  then show ?case by simp
next
  case (Cons c cs)
  have "rev (c # acc) @ cs \<in> set (ancestors_aux (c # acc) cs)"
    by (rule Cons.IH) simp
  then show ?case by simp
qed

lemma ancestors_self: "p \<noteq> [] \<Longrightarrow> p \<in> set (ancestors p)"
  using ancestors_aux_last [of "[]" p] by (simp add: ancestors_def)

lemma mkdirs_keeps: "nodes w d = Some n \<Longrightarrow> nodes (snd (mkdirs ds perm w)) d = Some n"
proof (induction ds perm w rule: mkdirs.induct)
  case (1 perm w)
  then show ?case by simp
next
  case (2 x xs perm w)
  show ?case
  proof (cases "nodes w x")
    case None
    with "2.prems" have "d \<noteq> x" by auto
    with "2.prems" have "nodes (w\<lparr>nodes := (nodes w)(x \<mapsto> Dir (clock w) (syscallMode perm))\<rparr>) d = Some n"
      by simp
    then show ?thesis using "2.IH"(1) [OF None] None by simp
  next
    case (Some y)
    then show ?thesis using "2.IH"(2) [OF Some] "2.prems" by (cases y) simp_all
  qed
qed

lemma mkdirs_creates:
  "d \<in> set ds \<Longrightarrow> \<forall>x\<in>set ds. \<forall>b t m. nodes w x \<noteq> Some (File b t m) \<Longrightarrow> nodes w d = None
   \<Longrightarrow> nodes (snd (mkdirs ds perm w)) d = Some (Dir (clock w) (syscallMode perm))"
proof (induction ds perm w rule: mkdirs.induct)
  case (1 perm w)
  then show ?case by simp
next
  case (2 x xs perm w)
  show ?case
  proof (cases "nodes w x")
    case None
    let ?w = "w\<lparr>nodes := (nodes w)(x \<mapsto> Dir (clock w) (syscallMode perm))\<rparr>"
    show ?thesis
    proof (cases "d = x")
      case True
      have "nodes ?w d = Some (Dir (clock w) (syscallMode perm))" using True by simp
      then have "nodes (snd (mkdirs xs perm ?w)) d = Some (Dir (clock w) (syscallMode perm))"
        by (rule mkdirs_keeps)
      with None show ?thesis by simp
    next
      case False
      with "2.prems" have "d \<in> set xs" by simp
      moreover have "\<forall>y\<in>set xs. \<forall>b t m. nodes ?w y \<noteq> Some (File b t m)"
        using "2.prems"(2) by simp
      moreover have "nodes ?w d = None" using False "2.prems"(3) by simp
      ultimately have "nodes (snd (mkdirs xs perm ?w)) d = Some (Dir (clock ?w) (syscallMode perm))"
        using "2.IH"(1) [OF None] by blast
      with None show ?thesis by simp
    qed
  next
    case (Some n)
    with "2.prems" obtain t m where n: "n = Dir t m" by (cases n) auto
    from Some "2.prems"(3) have "d \<noteq> x" by auto
    with "2.prems" have "d \<in> set xs" by simp
    then have "nodes (snd (mkdirs xs perm w)) d = Some (Dir (clock w) (syscallMode perm))"
      using "2.IH"(2) [OF Some n] "2.prems" by simp
    with Some n show ?thesis by simp
  qed
qed

lemma path_Dir_aux_length: "CHR ''/'' \<in> set xs \<Longrightarrow> length (path_Dir_aux xs) < length xs"
  by (induction xs) (auto simp: less_Suc_eq)

lemma path_Dir_neq: "2 \<le> length p \<Longrightarrow> CHR ''/'' \<in> set p \<Longrightarrow> path_Dir p \<noteq> p"
proof -
  assume a: "2 \<le> length p" "CHR ''/'' \<in> set p"
  then have "length (rev (path_Dir_aux (rev p))) < length p"
    using path_Dir_aux_length [of "rev p"] by simp
  then have "rev (path_Dir_aux (rev p)) \<noteq> p"
    by (metis less_irrefl)
  moreover from a have "''/'' \<noteq> p" by auto
  ultimately show ?thesis using a
    by (simp add: path_Dir_def Let_def)
qed

lemma listFile_shape: "2 \<le> length (listFile e escMod) \<and> CHR ''/'' \<in> set (listFile e escMod)"
  by (simp add: listFile_def filepath_Join_def)

lemma path_Dir_nonempty: "path_Dir p \<noteq> []"
  by (simp add: path_Dir_def Let_def)

lemma WriteFile_other:
  "d \<noteq> name \<Longrightarrow> nodes (snd (ioutil_WriteFile name b perm w)) d = nodes w d"
  by (auto simp: ioutil_WriteFile_def split: option.splits node.splits)

text \<open>
  C9. On the path of \<open>List\<close> that writes the cache file (cache file missing or stale,
  toolchain successful, listing decoded with the requested path), the world \<open>List\<close>
  returns is the one reached by calling \<open>os.MkdirAll\<close> on the cache directory with the
  permission value 755, the decimal literal of the source, and then writing the file.
  That value is the number written 1363 in octal, and it is not the number written 755
  in octal. Of its bits only the low nine reach the system call: a cache directory that
  did not exist, with no regular file in its way, is created with the mode 363 in octal,
  where the value 755 in octal would have given the mode 755 in octal.
\<close>

theorem List_mkdir_perm:
  assumes "EscapePath e mpath = Inr escMod"
    and "\<forall>n. nodes w (listFile e escMod) = Some n \<longrightarrow> \<not> clock w - modTime n < listExpire"
    and "run e [''go'', ''list'', ''-m'', ''-json'', ''-versions'', mpath @ ''@latest''] w = (p, w1)"
    and "\<not> failed p"
    and "unmarshalList e (stdout p) = Inr l"
    and "lPath l = mpath"
    and "nodes w1 (path_Dir (listFile e escMod)) = None"
    and "\<forall>d\<in>set (ancestors (path_Dir (listFile e escMod))). \<forall>b t m. nodes w1 d \<noteq> Some (File b t m)"
  shows "snd (List e mpath w)
           = snd (ioutil_WriteFile (listFile e escMod) (listData (lVersions l)) 438
                    (snd (os_MkdirAll (path_Dir (listFile e escMod)) 755
                            (w1\<lparr>calls := calls w @
                               [[''go'', ''list'', ''-m'', ''-json'', ''-versions'', mpath @ ''@latest'']]\<rparr>)))) \<and>
         (755 :: 32 word) = octal [1, 3, 6, 3] \<and> (755 :: 32 word) \<noteq> octal [7, 5, 5] \<and>
         nodes (snd (List e mpath w)) (path_Dir (listFile e escMod))
           = Some (Dir (clock w1) (octal [3, 6, 3])) \<and>
         syscallMode (octal [7, 5, 5]) = octal [7, 5, 5] \<and> octal [3, 6, 3] \<noteq> octal [7, 5, 5]"
proof -
  let ?file = "listFile e escMod"
  let ?cmd = "[''go'', ''list'', ''-m'', ''-json'', ''-versions'', mpath @ ''@latest'']"
  let ?wa = "w1\<lparr>calls := calls w @ [?cmd]\<rparr>"
  let ?wb = "snd (os_MkdirAll (path_Dir ?file) 755 ?wa)"
  have g: "goJSON (unmarshalList e) (run e) ?cmd w = (Inr l, ?wa)"
    using assms(3,4,5) by (simp add: goJSON_def Let_def)
  have stale: "\<not> (case os_Stat ?file w of Inl _ \<Rightarrow> False
                  | Inr info \<Rightarrow> clock w - modTime info < listExpire)"
    using assms(2) by (simp add: os_Stat_def split: option.splits)
  have fin: "snd (List e mpath w) = snd (ioutil_WriteFile ?file (listData (lVersions l)) 438 ?wb)"
    using assms(1,6) g stale
    by (simp add: List_def Let_def split: prod.splits option.splits)
  have "nodes ?wb (path_Dir ?file) = Some (Dir (clock ?wa) (syscallMode 755))"
    unfolding os_MkdirAll_def
    using assms(7,8) ancestors_self [OF path_Dir_nonempty]
    by (intro mkdirs_creates) simp_all
  moreover have "syscallMode 755 = octal [3, 6, 3]"
    by (simp add: syscallMode_def octal_def)
  moreover have "path_Dir ?file \<noteq> ?file"
    using listFile_shape [of e escMod] path_Dir_neq by blast
  ultimately have "nodes (snd (List e mpath w)) (path_Dir ?file)
      = Some (Dir (clock w1) (octal [3, 6, 3]))"
    using fin WriteFile_other [of "path_Dir ?file" ?file] by simp
  moreover have "(755 :: 32 word) = octal [1, 3, 6, 3] \<and> (755 :: 32 word) \<noteq> octal [7, 5, 5] \<and>
      syscallMode (octal [7, 5, 5]) = octal [7, 5, 5] \<and> octal [3, 6, 3] \<noteq> octal [7, 5, 5]"
    by (simp add: syscallMode_def octal_def)
  ultimately show ?thesis using fin by blast
qed

theorem List_mkdir_perm_witness:
  "nodes (snd (List exampleEnv ''m'' \<lparr>nodes = Map.empty, clock = 0, calls = []\<rparr>)) ''/d/m/@v''
     = Some (Dir 1 243) \<and>
   (243 :: 32 word) = octal [3, 6, 3] \<and>
   (755 :: 32 word) = octal [1, 3, 6, 3] \<and> (755 :: 32 word) \<noteq> octal [7, 5, 5]"
proof -
  let ?w = "\<lparr>nodes = Map.empty, clock = 0, calls = []\<rparr>"
  let ?cmd = "[''go'', ''list'', ''-m'', ''-json'', ''-versions'', ''m'' @ ''@latest'']"
  let ?p = "\<lparr>failed = False, stdout = Join ?cmd '' '', stderr = []\<rparr>"
  let ?l = "\<lparr>lPath = ''m'', lVersions = [''v1.0.0'', ''v1.1.0'']\<rparr>"
  have h1: "EscapePath exampleEnv ''m'' = Inr ''m''"
    by (simp add: exampleEnv_def)
  have h2: "\<forall>n. nodes ?w (listFile exampleEnv ''m'') = Some n
      \<longrightarrow> \<not> clock ?w - modTime n < listExpire"
    by simp
  have h3: "run exampleEnv ?cmd ?w = (?p, ?w\<lparr>clock := 1\<rparr>)"
    by (simp add: exampleEnv_def)
  have h4: "\<not> failed ?p" by simp
  have h5: "unmarshalList exampleEnv (stdout ?p) = Inr ?l"
    by (simp add: exampleEnv_def)
  have h6: "lPath ?l = ''m''" by simp
  have h7: "nodes (?w\<lparr>clock := 1\<rparr>) (path_Dir (listFile exampleEnv ''m'')) = None"
    by simp
  have h8: "\<forall>d\<in>set (ancestors (path_Dir (listFile exampleEnv ''m''))).
      \<forall>b t m. nodes (?w\<lparr>clock := 1\<rparr>) d \<noteq> Some (File b t m)"
    by simp
  have d: "path_Dir (listFile exampleEnv ''m'') = ''/d/m/@v''"
    by (simp add: exampleEnv_def listFile_def filepath_Join_def path_Dir_def)
  have o: "(243 :: 32 word) = octal [3, 6, 3]"
    by (simp add: octal_def)
  have "nodes (snd (List exampleEnv ''m'' ?w)) (path_Dir (listFile exampleEnv ''m''))
          = Some (Dir (clock (?w\<lparr>clock := 1\<rparr>)) (octal [3, 6, 3])) \<and>
        (755 :: 32 word) = octal [1, 3, 6, 3] \<and> (755 :: 32 word) \<noteq> octal [7, 5, 5]"
    using List_mkdir_perm [OF h1 h2 h3 h4 h5 h6 h7 h8] by blast
  then show ?thesis
    unfolding d using o by simp
qed

section \<open>Latest and Info\<close>

lemma os_Open_calls: "os_Open name (w\<lparr>calls := c\<rparr>) = os_Open name w"
  by (simp add: os_Open_def)

text \<open>
  C10. \<open>Latest\<close> on a path and \<open>Info\<close> on that path with version \<open>latest\<close> return the same
  result and the same world. Each has invoked the toolchain once, with
  \<open>go mod download -json P@latest\<close>; and when that process succeeds and its output
  decodes to a download record, the result is what opening the record's \<open>Info\<close> file
  gives in the world the process left.
\<close>

theorem Latest_eq_Info:
  "Latest e path w = Info e \<lparr>mPath = path, mVersion = ''latest''\<rparr> w \<and>
   calls (snd (Latest e path w)) = calls w @ [[''go'', ''mod'', ''download'', ''-json'', path @ ''@latest'']] \<and>
   calls (snd (Info e \<lparr>mPath = path, mVersion = ''latest''\<rparr> w))
     = calls w @ [[''go'', ''mod'', ''download'', ''-json'', path @ ''@latest'']] \<and>
   (run e [''go'', ''mod'', ''download'', ''-json'', path @ ''@latest''] w = (p, w1) \<and> \<not> failed p \<and>
      unmarshalDownload e (stdout p) = Inr d
    \<longrightarrow> fst (Latest e path w) = os_Open (dInfo d) w1 \<and>
        fst (Info e \<lparr>mPath = path, mVersion = ''latest''\<rparr> w) = os_Open (dInfo d) w1)"
  by (simp add: Latest_def Info_def download_def goJSON_def Version_String_def Let_def os_Open_calls
        split: prod.splits sum.splits)

theorem Latest_eq_Info_witness:
  "fst (Latest exampleEnv ''m''
          \<lparr>nodes = [''/d/m/@v/v1.1.0.info'' \<mapsto> File ''info'' 0 420], clock = 0, calls = []\<rparr>)
     = Inr (File ''info'' 0 420) \<and>
   fst (Info exampleEnv \<lparr>mPath = ''m'', mVersion = ''latest''\<rparr>
          \<lparr>nodes = [''/d/m/@v/v1.1.0.info'' \<mapsto> File ''info'' 0 420], clock = 0, calls = []\<rparr>)
     = Inr (File ''info'' 0 420)"
proof -
  let ?w = "\<lparr>nodes = [''/d/m/@v/v1.1.0.info'' \<mapsto> File ''info'' 0 420], clock = 0, calls = []\<rparr>"
  let ?cmd = "[''go'', ''mod'', ''download'', ''-json'', ''m'' @ ''@latest'']"
  let ?p = "\<lparr>failed = False, stdout = Join ?cmd '' '', stderr = []\<rparr>"
  let ?d = "\<lparr>dPath = ''m'', dVersion = ''v1.1.0'',
             dInfo = ''/d/m/@v/v1.1.0.info'', dGoMod = ''/d/m/@v/v1.1.0.mod'',
             dZip = ''/d/m/@v/v1.1.0.zip'', dDir = [], dSum = [], dGoModSum = []\<rparr>"
  have "run exampleEnv ?cmd ?w = (?p, ?w\<lparr>clock := 1\<rparr>) \<and> \<not> failed ?p \<and>
        unmarshalDownload exampleEnv (stdout ?p) = Inr ?d"
    by (simp add: exampleEnv_def)
  moreover have "os_Open (dInfo ?d) (?w\<lparr>clock := 1\<rparr>) = Inr (File ''info'' 0 420)"
    by (simp add: os_Open_def)
  ultimately show ?thesis
    using Latest_eq_Info [of exampleEnv "''m''" ?w ?p "?w\<lparr>clock := 1\<rparr>" ?d]
    by simp
qed

end
